theory Spec2Isabelle
  imports Main "HOL-Library.AList"
begin

section \<open>JavaScript values\<close>

text \<open>
  The values that \<^verbatim>\<open>packages/core/src/libraries/jwt-customizer.ts\<close> passes to a script
  and receives from it are of type \<^verbatim>\<open>unknown\<close>. The library inspects them with
  \<^verbatim>\<open>typeof\<close> and with a zod schema only, and never computes with a number. A function
  value is a handle; what calling it does is given by the runtime below.
\<close>

datatype jsval =
    JUndefined
  | JNull
  | JBoolean bool
  | JNumber int
  | JString string
  | JArray "jsval list"
  | JObject "(string \<times> jsval) list"
  | JFunction nat

section \<open>The deployment document\<close>

text \<open>
  \<^verbatim>\<open>packages/core/src/libraries/jwt-customizer.ts\<close> deploys the JWT customizer scripts to
  the cloud worker as one object of type \<^verbatim>\<open>CustomJwtDeployRequestBody\<close>, indexed by
  \<^verbatim>\<open>data[CustomJwtType][UseCase]\<close> (comment at lines 133-135).

  A JavaScript object is modelled as the list of its own enumerable properties in
  insertion order. A property that is present with the value \<^verbatim>\<open>undefined\<close> is a
  list element whose value is \<open>None\<close>; a property that the object does not have is not
  in the list. Writing \<^verbatim>\<open>destination[key] = v\<close> is \<^const>\<open>AList.update\<close>: the value
  of an existing property is replaced in place, a new property is appended.
\<close>

datatype UseCase = production | test

type_synonym CustomJwtScripts = "(UseCase \<times> string option) list"

type_synonym 'k CustomJwtDeployRequestBody = "('k \<times> CustomJwtScripts) list"

text \<open>
  An object has every property once. The token keys are the members of the enum
  \<^verbatim>\<open>LogtoJwtTokenKey\<close> and the use cases are \<^verbatim>\<open>'production'\<close> and \<^verbatim>\<open>'test'\<close>: none of
  them is the name of a property of \<^verbatim>\<open>Object.prototype\<close>.
\<close>

definition wellFormedDocument :: "'k CustomJwtDeployRequestBody \<Rightarrow> bool" where
  "wellFormedDocument document =
     (distinct (map fst document) \<and> list_all (\<lambda>entry. distinct (map fst (snd entry))) document)"

definition slot :: "'k CustomJwtDeployRequestBody \<Rightarrow> 'k \<Rightarrow> UseCase \<Rightarrow> string option option" where
  "slot document key useCase =
     (case map_of document key of None \<Rightarrow> None | Some scripts \<Rightarrow> map_of scripts useCase)"

subsection \<open>The imported \<^verbatim>\<open>deepmerge\<close>\<close>

text \<open>
  \<^verbatim>\<open>deepmerge\<close> (line 15) is the npm package of that name, called with its default
  options. Its \<^verbatim>\<open>mergeObject(target, source)\<close> builds a fresh \<^verbatim>\<open>destination\<close>: first
  every own property of \<^verbatim>\<open>target\<close> is copied with \<^verbatim>\<open>cloneUnlessOtherwiseSpecified\<close>; then,
  for every own property \<^verbatim>\<open>key\<close> of \<^verbatim>\<open>source\<close> (\<^verbatim>\<open>Object.keys\<close>, which lists a property
  whose value is \<^verbatim>\<open>undefined\<close>), \<^verbatim>\<open>destination[key]\<close> becomes the recursive merge of
  \<^verbatim>\<open>target[key]\<close> and \<^verbatim>\<open>source[key]\<close> when \<^verbatim>\<open>key\<close> is on \<^verbatim>\<open>target\<close> and \<^verbatim>\<open>source[key]\<close> is a
  mergeable object, and a clone of \<^verbatim>\<open>source[key]\<close> otherwise. No property is ever deleted.
  (The package skips a source key that \<^verbatim>\<open>target\<close> only inherits from its prototype; the
  keys of the deployment document are not such names.)
\<close>

definition mergeObject ::
  "('v \<Rightarrow> bool) \<Rightarrow> ('v \<Rightarrow> 'v) \<Rightarrow> ('v \<Rightarrow> 'v \<Rightarrow> 'v) \<Rightarrow> ('k \<times> 'v) list \<Rightarrow> ('k \<times> 'v) list \<Rightarrow> ('k \<times> 'v) list" where
  "mergeObject isMergeableObject cloneUnlessOtherwiseSpecified mergeFunction target source =
     fold (\<lambda>(key, v) destination.
             case map_of target key of
               Some t \<Rightarrow>
                 if isMergeableObject v
                 then AList.update key (mergeFunction t v) destination
                 else AList.update key (cloneUnlessOtherwiseSpecified v) destination
             | None \<Rightarrow> AList.update key (cloneUnlessOtherwiseSpecified v) destination)
          source
          (fold (\<lambda>(key, v) destination. AList.update key (cloneUnlessOtherwiseSpecified v) destination)
             target [])"

text \<open>
  The innermost level: the values are script texts or \<^verbatim>\<open>undefined\<close>. Neither is a
  mergeable object, and the clone of such a value is the value.
\<close>

definition deepmerge_scripts :: "CustomJwtScripts \<Rightarrow> CustomJwtScripts \<Rightarrow> CustomJwtScripts" where
  "deepmerge_scripts target source = mergeObject (\<lambda>v. False) (\<lambda>v. v) (\<lambda>t v. v) target source"

text \<open>
  The outer level: the values are the per-key objects, which are mergeable; the clone of
  an object is its merge into the empty object.
\<close>

definition deepmerge ::
  "'k CustomJwtDeployRequestBody \<Rightarrow> 'k CustomJwtDeployRequestBody \<Rightarrow> 'k CustomJwtDeployRequestBody" where
  "deepmerge target source =
     mergeObject (\<lambda>v. True) (\<lambda>v. deepmerge_scripts [] v) deepmerge_scripts target source"

subsection \<open>\<^verbatim>\<open>deployJwtCustomizerScript\<close> and \<^verbatim>\<open>undeployJwtCustomizerScript\<close>\<close>

text \<open>
  The stored value of one customizer (\<^verbatim>\<open>JwtCustomizerType[T]\<close>): the script text and the
  optional environment variables (\<open>None\<close>: the object has no such property).
\<close>

record JwtCustomizer =
  script :: string
  environmentVariables :: "jsval option"

record 'k DeployPayload =
  key :: 'k
  "value" :: JwtCustomizer
  useCase :: UseCase

text \<open>
  What the function asks of the cloud client: nothing (the early \<^verbatim>\<open>return\<close> outside the
  cloud), \<^verbatim>\<open>client.put('/api/services/custom-jwt/worker', { body })\<close>, or
  \<^verbatim>\<open>client.delete('/api/services/custom-jwt/worker')\<close>.
\<close>

datatype 'k WorkerRequest =
    NoRequest
  | PutWorker "'k CustomJwtDeployRequestBody"
  | DeleteWorker

datatype 'k RequestError = entity_not_exists 'k

text \<open>
  \<^verbatim>\<open>EnvSet.values.isCloud\<close> and the object \<^verbatim>\<open>jwtCustomizers\<close> read from the configuration
  store (one property for each configured customizer) are inputs.
  \<^verbatim>\<open>getJwtCustomizerScripts\<close> is imported from \<^verbatim>\<open>#src/utils/custom-jwt/index.js\<close>; the
  document it returns for \<^verbatim>\<open>jwtCustomizers\<close> is the input \<open>customizerScriptsFromDatabase\<close>.
\<close>

definition deployJwtCustomizerScript ::
  "bool \<Rightarrow> 'k CustomJwtDeployRequestBody \<Rightarrow> 'k DeployPayload \<Rightarrow> 'k WorkerRequest" where
  "deployJwtCustomizerScript isCloud customizerScriptsFromDatabase payload =
     (if \<not> isCloud then NoRequest
      else
        let newCustomizerScripts = [(key payload, [(useCase payload, Some (script (value payload)))])]
        in PutWorker (deepmerge customizerScriptsFromDatabase newCustomizerScripts))"

definition undeployJwtCustomizerScript ::
  "bool \<Rightarrow> ('k \<times> JwtCustomizer) list \<Rightarrow> 'k CustomJwtDeployRequestBody \<Rightarrow> 'k
     \<Rightarrow> 'k RequestError + 'k WorkerRequest" where
  "undeployJwtCustomizerScript isCloud jwtCustomizers customizerScriptsFromDatabase k =
     (if \<not> isCloud then Inr NoRequest
      else if map_of jwtCustomizers k = None then Inl (entity_not_exists k)
      else if length jwtCustomizers = 1 then Inr DeleteWorker
      else
        let newCustomizerScripts = [(k, [(production, None), (test, None)])]
        in Inr (PutWorker (deepmerge customizerScriptsFromDatabase newCustomizerScripts)))"

section \<open>\<^verbatim>\<open>runScriptInLocalVm\<close>\<close>

subsection \<open>Thrown values and the runtime\<close>

text \<open>
  The \<^verbatim>\<open>catch\<close> block (lines 218-253) asks of a thrown value whether it is a native
  error (\<^verbatim>\<open>types.isNativeError\<close>) and whether it is an instance of this module's own
  \<^verbatim>\<open>SyntaxError\<close> or \<^verbatim>\<open>TypeError\<close>. An error object created inside the new context has the
  constructors of that context, not of this module (comment at lines 33-34), so the
  realm of a native error is part of the value. The constructor is the one of the four
  named classes of which the error is an instance (an instance of a subclass of
  \<^verbatim>\<open>TypeError\<close> is a \<^verbatim>\<open>TypeError\<close>), and \<open>Error\<close> for an error that is an instance of
  none of them.

  Of a native error the block writes \<^verbatim>\<open>error.message\<close> and \<^verbatim>\<open>error.stack\<close> into the JSON
  body, whatever the script has made of these properties. For each of the two the value
  records what \<^verbatim>\<open>JSON.stringify\<close> makes of it: \<open>Yields (Some v)\<close> is a property written
  with the JSON value \<open>v\<close> (a string is \<open>JString\<close>); \<open>Yields None\<close> is a property that is
  not written, because its value is \<^verbatim>\<open>undefined\<close> or a function; \<open>Raises\<close> is a property
  whose reading or writing throws. Of any other thrown value the block takes
  \<^verbatim>\<open>String(error)\<close>, which yields a string or throws.
\<close>

datatype 'a Attempt = Yields 'a | Raises

datatype Realm = Host | NewContext

datatype ErrorConstructor = Error | SyntaxError | TypeError | ReferenceError | RangeError

datatype thrown =
    NativeError Realm ErrorConstructor "jsval option Attempt" "jsval option Attempt"
  | NotAnError "string Attempt"

datatype 'a Completion = Normal 'a | Throw thrown

text \<open>
  The script is text in a language that is not modelled; what \<^verbatim>\<open>node:vm\<close> does with it
  is given by a runtime, which stands for the engine in the state in which the call
  finds it (\<^verbatim>\<open>globalContext\<close> is one object for all calls, so what earlier calls have
  left in its context is part of that state).

  \<open>evaluate\<close> runs the script body of \<^verbatim>\<open>data.script + ';getCustomJwtClaims;'\<close>. The body
  throws (a text that does not parse throws too), or it completes. When it completes,
  the appended expression is evaluated and \<open>Resolves\<close> gives the value of every
  identifier that it can resolve; or the appended text is not evaluated at all, because
  the script ends in a line comment, and \<open>Swallowed\<close> gives the completion value of the
  script, which is then the value of the program.

  \<open>invoke\<close> is
  \<^verbatim>\<open>await runInNewContext('(async () => getCustomJwtClaims(payload))();', ..., { timeout: 3000 })\<close>
  for a function value and a payload: the awaited value or the value thrown (an error
  raised by the script, a rejection, or the error that \<^verbatim>\<open>node:vm\<close> raises when the
  timeout expires).

  \<open>None\<close> is a call that never returns: the first call passes no timeout, and the
  timeout of the second one ends the synchronous run only, not the wait for a promise
  that never settles. \<open>stackOf\<close> is the \<^verbatim>\<open>stack\<close> that the engine records in an error
  it creates with the given message.
\<close>

datatype Evaluation = Resolves "string \<rightharpoonup> jsval" | Swallowed jsval

record Runtime =
  evaluate :: "string \<Rightarrow> Evaluation Completion option"
  invoke :: "jsval \<Rightarrow> (string \<times> jsval) list \<Rightarrow> jsval Completion option"
  stackOf :: "string \<Rightarrow> string option"

text \<open>
  An error that the engine or this module creates with a message: its message is that
  string and its stack is the one recorded.
\<close>

definition createdError :: "Runtime \<Rightarrow> Realm \<Rightarrow> ErrorConstructor \<Rightarrow> string \<Rightarrow> thrown" where
  "createdError rt realm c m =
     NativeError realm c (Yields (Some (JString m))) (Yields (map_option JString (stackOf rt m)))"

text \<open>
  \<^verbatim>\<open>runInNewContext(data.script + ';getCustomJwtClaims;', globalContext)\<close> (lines 187-190):
  after the script body, the value of the program is the value of the identifier
  \<^verbatim>\<open>getCustomJwtClaims\<close>; evaluating an identifier that nothing binds throws a
  \<^verbatim>\<open>ReferenceError\<close> of the new context.
\<close>

definition runInNewContext_script :: "Runtime \<Rightarrow> string \<Rightarrow> jsval Completion option" where
  "runInNewContext_script rt scriptText =
     (case evaluate rt scriptText of
        None \<Rightarrow> None
      | Some (Throw e) \<Rightarrow> Some (Throw e)
      | Some (Normal (Swallowed v)) \<Rightarrow> Some (Normal v)
      | Some (Normal (Resolves scope)) \<Rightarrow>
          (case scope ''getCustomJwtClaims'' of
             None \<Rightarrow>
               Some (Throw (createdError rt NewContext ReferenceError ''getCustomJwtClaims is not defined''))
           | Some v \<Rightarrow> Some (Normal v)))"

fun typeof_function :: "jsval \<Rightarrow> bool" where
  "typeof_function (JFunction f) = True"
| "typeof_function v = False"

subsection \<open>The payload of the entry point\<close>

datatype LogtoJwtTokenKeyType = AccessToken | ClientCredentials

text \<open>
  \<^verbatim>\<open>data: CustomJwtFetcher\<close>: the script and its environment variables, the token type,
  the token and the user context. \<open>None\<close> is a property that the object does not have.
\<close>

record CustomJwtFetcher = JwtCustomizer +
  tokenType :: LogtoJwtTokenKeyType
  token :: "jsval option"
  "context" :: "jsval option"

text \<open>
  Reading a property that the object does not have gives \<^verbatim>\<open>undefined\<close>. \<open>property\<close> reads
  the properties of \<^verbatim>\<open>data\<close> that the two calls of \<^verbatim>\<open>pick\<close> at lines 198-199 name.
\<close>

fun read :: "jsval option \<Rightarrow> jsval" where
  "read None = JUndefined"
| "read (Some v) = v"

definition property :: "CustomJwtFetcher \<Rightarrow> string \<Rightarrow> jsval" where
  "property data name =
     (if name = ''token'' then read (token data)
      else if name = ''context'' then read (context data)
      else if name = ''environmentVariables'' then read (environmentVariables data)
      else JUndefined)"

text \<open>
  \<^verbatim>\<open>pick(object, ...keys)\<close> of \<^verbatim>\<open>@silverhand/essentials\<close> returns a new object that has
  every listed key, in the order listed, with the value \<^verbatim>\<open>object[key]\<close>: a key that
  \<^verbatim>\<open>object\<close> lacks is written with the value \<^verbatim>\<open>undefined\<close>.
\<close>

definition pick :: "CustomJwtFetcher \<Rightarrow> string list \<Rightarrow> (string \<times> jsval) list" where
  "pick data keys = map (\<lambda>name. (name, property data name)) keys"

definition payload :: "CustomJwtFetcher \<Rightarrow> (string \<times> jsval) list" where
  "payload data =
     (if tokenType data = AccessToken
      then pick data [''token'', ''context'', ''environmentVariables'']
      else pick data [''token'', ''environmentVariables''])"

subsection \<open>The result schema\<close>

text \<open>
  \<^verbatim>\<open>z.record(z.unknown()).parse(result)\<close> (line 216): zod accepts a value whose parsed
  type is \<^verbatim>\<open>object\<close> and returns its properties; for any other value it throws a
  \<^verbatim>\<open>ZodError\<close> with one \<^verbatim>\<open>invalid_type\<close> issue that names the type received.
\<close>

datatype ZodParsedType =
    zod_undefined | zod_null | zod_boolean | zod_number | zod_string | zod_array | zod_object
  | zod_function

fun getParsedType :: "jsval \<Rightarrow> ZodParsedType" where
  "getParsedType JUndefined = zod_undefined"
| "getParsedType JNull = zod_null"
| "getParsedType (JBoolean b) = zod_boolean"
| "getParsedType (JNumber n) = zod_number"
| "getParsedType (JString s) = zod_string"
| "getParsedType (JArray xs) = zod_array"
| "getParsedType (JObject props) = zod_object"
| "getParsedType (JFunction f) = zod_function"

datatype ZodIssue = invalid_type ZodParsedType ZodParsedType

fun parse_record :: "jsval \<Rightarrow> ZodIssue list + (string \<times> jsval) list" where
  "parse_record (JObject props) = Inr props"
| "parse_record v = Inl [invalid_type zod_object (getParsedType v)]"

subsection \<open>The \<^verbatim>\<open>try\<close> block and the \<^verbatim>\<open>catch\<close> block\<close>

text \<open>
  What the \<^verbatim>\<open>catch\<close> block receives: the \<^verbatim>\<open>ZodError\<close> of line 216 with its issues, or a
  value thrown by the runtime or by line 193. No value thrown inside the new context is
  an instance of this module's \<^verbatim>\<open>ZodError\<close>.
\<close>

datatype caught = ZodError "ZodIssue list" | Other thrown

datatype 'a TryResult = Returned 'a | Caught caught

definition tryBlock :: "Runtime \<Rightarrow> CustomJwtFetcher \<Rightarrow> (string \<times> jsval) list TryResult option" where
  "tryBlock rt data =
     (case runInNewContext_script rt (script data) of
        None \<Rightarrow> None
      | Some (Throw e) \<Rightarrow> Some (Caught (Other e))
      | Some (Normal getCustomJwtClaims) \<Rightarrow>
          if \<not> typeof_function getCustomJwtClaims
          then Some (Caught (Other
                 (createdError rt Host TypeError
                    ''The script does not have a function named `getCustomJwtClaims`'')))
          else
            (case invoke rt getCustomJwtClaims (payload data) of
               None \<Rightarrow> None
             | Some (Throw e) \<Rightarrow> Some (Caught (Other e))
             | Some (Normal result) \<Rightarrow>
                 (case parse_record result of
                    Inl issues \<Rightarrow> Some (Caught (ZodError issues))
                  | Inr parsedResult \<Rightarrow> Some (Returned parsedResult))))"

text \<open>
  The JSON body of the \<^verbatim>\<open>Response\<close>; \<open>None\<close> is a property that \<^verbatim>\<open>JSON.stringify\<close> does
  not write.
\<close>

record ErrorBody =
  message :: "jsval option"
  errors :: "ZodIssue list option"
  stack :: "jsval option"

record ResponseError =
  status :: nat
  body :: ErrorBody

text \<open>
  \<^verbatim>\<open>JSON.stringify(buildErrorResponse(error))\<close> (lines 31-38 and 244). Nothing guards
  it: when reading or writing a property of the error, or \<^verbatim>\<open>String(error)\<close>, throws,
  the \<^verbatim>\<open>catch\<close> block throws that and builds no response.
\<close>

fun buildErrorResponse :: "thrown \<Rightarrow> ErrorBody Attempt" where
  "buildErrorResponse (NativeError realm c (Yields m) (Yields s)) =
     Yields \<lparr>message = m, errors = None, stack = s\<rparr>"
| "buildErrorResponse (NativeError realm c m s) = Raises"
| "buildErrorResponse (NotAnError (Yields str)) =
     Yields \<lparr>message = Some (JString str), errors = None, stack = None\<rparr>"
| "buildErrorResponse (NotAnError Raises) = Raises"

text \<open>\<^verbatim>\<open>error instanceof SyntaxError || error instanceof TypeError\<close> (line 249).\<close>

fun instanceofSyntaxOrTypeError :: "thrown \<Rightarrow> bool" where
  "instanceofSyntaxOrTypeError (NativeError Host SyntaxError m s) = True"
| "instanceofSyntaxOrTypeError (NativeError Host TypeError m s) = True"
| "instanceofSyntaxOrTypeError e = False"

fun catchBlock :: "caught \<Rightarrow> ResponseError Attempt" where
  "catchBlock (ZodError issues) =
     Yields \<lparr>status = 400,
             body = \<lparr>message = Some (JString ''Invalid input''), errors = Some issues, stack = None\<rparr>\<rparr>"
| "catchBlock (Other e) =
     (case buildErrorResponse e of
        Raises \<Rightarrow> Raises
      | Yields b \<Rightarrow> Yields \<lparr>status = (if instanceofSyntaxOrTypeError e then 422 else 500), body = b\<rparr>)"

text \<open>
  The function returns the parsed result, or throws: \<open>Inl (Yields r)\<close> is the
  \<^verbatim>\<open>ResponseError\<close> with the response \<open>r\<close>, \<open>Inl Raises\<close> is what the \<^verbatim>\<open>catch\<close> block threw
  when it could not build a response.
\<close>

definition runScriptInLocalVm ::
  "Runtime \<Rightarrow> CustomJwtFetcher \<Rightarrow> (ResponseError Attempt + (string \<times> jsval) list) option" where
  "runScriptInLocalVm rt data =
     (case tryBlock rt data of
        None \<Rightarrow> None
      | Some (Returned parsedResult) \<Rightarrow> Some (Inr parsedResult)
      | Some (Caught e) \<Rightarrow> Some (Inl (catchBlock e)))"

section \<open>Example inputs\<close>

text \<open>
  Scopes left by three scripts: \<^verbatim>\<open>const getCustomJwtClaims = async () => ...\<close>, which
  defines the entry point as a function; \<^verbatim>\<open>const answer = 42\<close>, which defines something
  else only; and \<^verbatim>\<open>const getCustomJwtClaims = 42\<close>, which binds the name of the entry
  point to a number. The example runtime completes the script body with the given scope
  and settles the call of the entry point with the given outcome; the example data carry
  the given script text and token type.
\<close>

definition scopeWithEntryPoint :: "string \<rightharpoonup> jsval" where
  "scopeWithEntryPoint = [''getCustomJwtClaims'' \<mapsto> JFunction 0]"

definition scopeWithoutEntryPoint :: "string \<rightharpoonup> jsval" where
  "scopeWithoutEntryPoint = [''answer'' \<mapsto> JNumber 42]"

definition scopeWithNumberEntryPoint :: "string \<rightharpoonup> jsval" where
  "scopeWithNumberEntryPoint = [''getCustomJwtClaims'' \<mapsto> JNumber 42]"

definition exampleRuntime :: "(string \<rightharpoonup> jsval) \<Rightarrow> jsval Completion option \<Rightarrow> Runtime" where
  "exampleRuntime scope outcome =
     \<lparr>evaluate = (\<lambda>scriptText. Some (Normal (Resolves scope))),
      invoke = (\<lambda>f p. outcome),
      stackOf = (\<lambda>m. Some ''at runScriptInLocalVm'')\<rparr>"

definition exampleData :: "string \<Rightarrow> LogtoJwtTokenKeyType \<Rightarrow> CustomJwtFetcher" where
  "exampleData scriptText t =
     \<lparr>script = scriptText,
      environmentVariables = Some (JObject [(''API_KEY'', JString ''k'')]),
      tokenType = t,
      token = Some (JObject [(''sub'', JString ''u1'')]),
      context = Some (JObject [(''user'', JObject [])])\<rparr>"

text \<open>
  A runtime in which the script body never completes (\<^verbatim>\<open>while (true) {}\<close>); a runtime
  in which the entry point is \<^verbatim>\<open>(payload) => payload\<close>; and data that have no
  \<^verbatim>\<open>token\<close> and no \<^verbatim>\<open>environmentVariables\<close>.
\<close>

definition loopingRuntime :: Runtime where
  "loopingRuntime =
     \<lparr>evaluate = (\<lambda>scriptText. None),
      invoke = (\<lambda>f p. None),
      stackOf = (\<lambda>m. Some ''at runScriptInLocalVm'')\<rparr>"

definition echoRuntime :: Runtime where
  "echoRuntime =
     \<lparr>evaluate = (\<lambda>scriptText. Some (Normal (Resolves scopeWithEntryPoint))),
      invoke = (\<lambda>f p. Some (Normal (JObject p))),
      stackOf = (\<lambda>m. Some ''at runScriptInLocalVm'')\<rparr>"


section \<open>Executions\<close>

text \<open>
  Two ways in which an execution proceeds, read off the runtime: the script body or the
  call of the entry point throws the value \<open>e\<close>; the script body leaves a function under
  the name of the entry point and its call, with the payload, settles with the value
  \<open>v\<close>.
\<close>

definition scriptThrows :: "Runtime \<Rightarrow> CustomJwtFetcher \<Rightarrow> thrown \<Rightarrow> bool" where
  "scriptThrows rt data e =
     (evaluate rt (script data) = Some (Throw e)
      \<or> (case runInNewContext_script rt (script data) of
            Some (Normal f) \<Rightarrow> typeof_function f \<and> invoke rt f (payload data) = Some (Throw e)
          | Some (Throw e') \<Rightarrow> False
          | None \<Rightarrow> False))"

definition entryPointReturns :: "Runtime \<Rightarrow> CustomJwtFetcher \<Rightarrow> jsval \<Rightarrow> bool" where
  "entryPointReturns rt data v =
     (case runInNewContext_script rt (script data) of
        Some (Normal f) \<Rightarrow> typeof_function f \<and> invoke rt f (payload data) = Some (Normal v)
      | Some (Throw e) \<Rightarrow> False
      | None \<Rightarrow> False)"

section \<open>Properties of the deployment merge\<close>

subsection \<open>The merge on well-formed documents\<close>

lemma update_fresh:
  "k \<notin> fst ` set al \<Longrightarrow> AList.update k v al = al @ [(k, v)]"
  by (induction al) auto

lemma fold_update_append:
  "distinct (map fst (acc @ xs)) \<Longrightarrow>
   fold (\<lambda>(k, v) d. AList.update k (f v) d) xs acc = acc @ map (\<lambda>(k, v). (k, f v)) xs"
proof (induction xs arbitrary: acc)
  case Nil
  then show ?case by simp
next
  case (Cons x xs)
  obtain k v where x: "x = (k, v)" by (cases x)
  have nk: "k \<notin> fst ` set acc" using Cons.prems x by auto
  have d: "distinct (map fst ((acc @ [(k, f v)]) @ xs))" using Cons.prems x by auto
  show ?case using Cons.IH[OF d] x update_fresh[OF nk, of "f v"] by simp
qed

lemma deepmerge_scripts_fold:
  "deepmerge_scripts target source =
     fold (\<lambda>(k, v) d. AList.update k v d) source (fold (\<lambda>(k, v) d. AList.update k v d) target [])"
  unfolding deepmerge_scripts_def mergeObject_def
  by (rule fold_cong) (auto simp: fun_eq_iff split: option.splits)

lemma deepmerge_scripts_distinct:
  assumes "distinct (map fst target)"
  shows "deepmerge_scripts target source = fold (\<lambda>(k, v) d. AList.update k v d) source target"
proof -
  have "fold (\<lambda>(k, v) d. AList.update k ((\<lambda>v. v) v) d) target [] = [] @ map (\<lambda>(k, v). (k, (\<lambda>v. v) v)) target"
    by (rule fold_update_append) (simp add: assms)
  then have "fold (\<lambda>(k, v) d. AList.update k v d) target [] = target" by simp
  then show ?thesis by (simp add: deepmerge_scripts_fold)
qed

lemma clone_scripts:
  "distinct (map fst v) \<Longrightarrow> deepmerge_scripts [] v = v"
  using fold_update_append[of "[]" v "\<lambda>v. v"] by (simp add: deepmerge_scripts_distinct)

lemma copy_document:
  assumes "wellFormedDocument d"
  shows "fold (\<lambda>(k, v) dest. AList.update k (deepmerge_scripts [] v) dest) d [] = d"
proof -
  have "fold (\<lambda>(k, v) dest. AList.update k (deepmerge_scripts [] v) dest) d []
          = [] @ map (\<lambda>(k, v). (k, deepmerge_scripts [] v)) d"
    by (rule fold_update_append) (use assms in \<open>simp add: wellFormedDocument_def\<close>)
  moreover have "map (\<lambda>(k, v). (k, deepmerge_scripts [] v)) d = d"
    using assms by (auto simp: wellFormedDocument_def list_all_iff clone_scripts intro!: map_idI)
  ultimately show ?thesis by simp
qed

lemma deepmerge_single:
  assumes "wellFormedDocument d"
  shows "deepmerge d [(k, e)] =
           AList.update k (case map_of d k of Some t \<Rightarrow> deepmerge_scripts t e | None \<Rightarrow> deepmerge_scripts [] e) d"
  by (simp add: deepmerge_def mergeObject_def copy_document[OF assms] split: option.splits)

lemma entry_distinct:
  "wellFormedDocument d \<Longrightarrow> map_of d k = Some t \<Longrightarrow> distinct (map fst t)"
  by (auto simp: wellFormedDocument_def list_all_iff dest!: map_of_SomeD)

lemma set_alist_update:
  "set (AList.update k e d) \<subseteq> insert (k, e) (set d)"
  by (induction d) auto

lemma wellFormed_update:
  assumes "wellFormedDocument d" "distinct (map fst e)"
  shows "wellFormedDocument (AList.update k e d)"
proof -
  have "distinct (map fst (snd x))" if "x \<in> set (AList.update k e d)" for x
    using that assms set_alist_update[of k e d]
    by (auto simp: wellFormedDocument_def list_all_iff)
  then show ?thesis
    using assms by (simp add: wellFormedDocument_def list_all_iff distinct_update)
qed

lemma distinct_fold_update:
  "distinct (map fst t) \<Longrightarrow> distinct (map fst (fold (\<lambda>(k, v) d. AList.update k v d) s t))"
  by (induction s arbitrary: t) (auto simp: distinct_update)

lemma map_of_deepmerge_single:
  assumes "wellFormedDocument d"
  shows "map_of (deepmerge d [(k, e)]) =
           (map_of d)(k \<mapsto> (case map_of d k of Some t \<Rightarrow> fold (\<lambda>(k, v) d. AList.update k v d) e t
                                 | None \<Rightarrow> fold (\<lambda>(k, v) d. AList.update k v d) e []))"
  using entry_distinct[OF assms]
  by (auto simp: deepmerge_single[OF assms] update_conv' deepmerge_scripts_distinct split: option.splits)

lemma wellFormed_deepmerge_single:
  assumes "wellFormedDocument d"
  shows "wellFormedDocument (deepmerge d [(k, e)])"
  unfolding deepmerge_single[OF assms]
  using entry_distinct[OF assms]
  by (intro wellFormed_update[OF assms]) (auto simp: deepmerge_scripts_distinct distinct_fold_update split: option.splits)

subsection \<open>Upsert\<close>

text \<open>
  C7. For every well-formed current document and every payload (token key, use case,
  script), \<^verbatim>\<open>deployJwtCustomizerScript\<close> in the cloud puts a merged document in which
  the addressed slot holds exactly the script of the payload, the other use-case slot
  under the same key is what it was (absent stays absent), and the entry of every other
  token key is the same object as before.
\<close>

theorem deploy_writes_slot_and_keeps_the_rest:
  assumes "wellFormedDocument customizerScriptsFromDatabase"
  shows "\<exists>merged.
           deployJwtCustomizerScript True customizerScriptsFromDatabase p = PutWorker merged
         \<and> slot merged (key p) (useCase p) = Some (Some (script (value p)))
         \<and> (\<forall>u. u \<noteq> useCase p \<longrightarrow>
                slot merged (key p) u = slot customizerScriptsFromDatabase (key p) u)
         \<and> (\<forall>k. k \<noteq> key p \<longrightarrow> map_of merged k = map_of customizerScriptsFromDatabase k)
         \<and> wellFormedDocument merged"
  using wellFormed_deepmerge_single[OF assms]
  by (auto simp: deployJwtCustomizerScript_def slot_def map_of_deepmerge_single[OF assms] update_conv'
           split: option.splits)

theorem deploy_writes_slot_and_keeps_the_rest_witness:
  "wellFormedDocument [(AccessToken, [(test, Some ''a'')]), (ClientCredentials, [(production, Some ''c'')])]
   \<and> deployJwtCustomizerScript True
        [(AccessToken, [(test, Some ''a'')]), (ClientCredentials, [(production, Some ''c'')])]
        \<lparr>key = AccessToken, value = \<lparr>script = ''b'', environmentVariables = None\<rparr>, useCase = production\<rparr>
       = PutWorker [(AccessToken, [(test, Some ''a''), (production, Some ''b'')]),
                    (ClientCredentials, [(production, Some ''c'')])]
   \<and> slot [(AccessToken, [(test, Some ''a''), (production, Some ''b'')]),
            (ClientCredentials, [(production, Some ''c'')])] AccessToken production = Some (Some ''b'')
   \<and> test \<noteq> production
   \<and> slot [(AccessToken, [(test, Some ''a''), (production, Some ''b'')]),
            (ClientCredentials, [(production, Some ''c'')])] AccessToken test
       = slot [(AccessToken, [(test, Some ''a'')]), (ClientCredentials, [(production, Some ''c'')])]
           AccessToken test
   \<and> ClientCredentials \<noteq> AccessToken
   \<and> map_of [(AccessToken, [(test, Some ''a''), (production, Some ''b'')]),
              (ClientCredentials, [(production, Some ''c'')])] ClientCredentials
       = map_of [(AccessToken, [(test, Some ''a'')]), (ClientCredentials, [(production, Some ''c'')])]
           ClientCredentials"
  using deploy_writes_slot_and_keeps_the_rest
          [of "[(AccessToken, [(test, Some ''a'')]), (ClientCredentials, [(production, Some ''c'')])]"
              "\<lparr>key = AccessToken, value = \<lparr>script = ''b'', environmentVariables = None\<rparr>, useCase = production\<rparr>"]
  by (simp add: wellFormedDocument_def deployJwtCustomizerScript_def deepmerge_def deepmerge_scripts_def
        mergeObject_def slot_def)

subsection \<open>Removal\<close>

lemma single_configured:
  assumes "distinct (map fst cfg)" "map_of cfg k \<noteq> None"
  shows "(length cfg = 1) = (set (map fst cfg) = {k})"
proof
  assume "length cfg = 1"
  then obtain a b where "cfg = [(a, b)]" by (cases cfg) auto
  with assms(2) show "set (map fst cfg) = {k}" by (auto split: if_splits)
next
  assume s: "set (map fst cfg) = {k}"
  have "length (map fst cfg) = card (set (map fst cfg))"
    using assms(1) by (simp only: distinct_card)
  with s show "length cfg = 1" by simp
qed

text \<open>
  C6. In the cloud, for every configured set (an object: every key once) and every key
  that is configured, \<^verbatim>\<open>undeployJwtCustomizerScript\<close> deletes the worker, instead of
  putting a document, if and only if that key is the only configured customizer; when
  another customizer is configured it puts a document.
\<close>

theorem undeploy_tears_down_iff_last:
  assumes "distinct (map fst jwtCustomizers)" "map_of jwtCustomizers k \<noteq> None"
  shows "(undeployJwtCustomizerScript True jwtCustomizers customizerScriptsFromDatabase k = Inr DeleteWorker)
           = (set (map fst jwtCustomizers) = {k})
       \<and> (set (map fst jwtCustomizers) \<noteq> {k} \<longrightarrow>
            (\<exists>merged. undeployJwtCustomizerScript True jwtCustomizers customizerScriptsFromDatabase k
                        = Inr (PutWorker merged)))"
  using assms single_configured[OF assms]
  by (auto simp: undeployJwtCustomizerScript_def Let_def)

theorem undeploy_tears_down_iff_last_witness:
  "distinct (map fst [(AccessToken, \<lparr>script = ''a'', environmentVariables = None\<rparr>)])
   \<and> map_of [(AccessToken, \<lparr>script = ''a'', environmentVariables = None\<rparr>)] AccessToken \<noteq> None
   \<and> set (map fst [(AccessToken, \<lparr>script = ''a'', environmentVariables = None\<rparr>)]) = {AccessToken}
   \<and> undeployJwtCustomizerScript True [(AccessToken, \<lparr>script = ''a'', environmentVariables = None\<rparr>)]
         [(AccessToken, [(production, Some ''a'')])] AccessToken = Inr DeleteWorker
   \<and> distinct (map fst [(AccessToken, \<lparr>script = ''a'', environmentVariables = None\<rparr>),
                          (ClientCredentials, \<lparr>script = ''c'', environmentVariables = None\<rparr>)])
   \<and> map_of [(AccessToken, \<lparr>script = ''a'', environmentVariables = None\<rparr>),
              (ClientCredentials, \<lparr>script = ''c'', environmentVariables = None\<rparr>)] AccessToken \<noteq> None
   \<and> set (map fst [(AccessToken, \<lparr>script = ''a'', environmentVariables = None\<rparr>),
                     (ClientCredentials, \<lparr>script = ''c'', environmentVariables = None\<rparr>)]) \<noteq> {AccessToken}
   \<and> undeployJwtCustomizerScript True
         [(AccessToken, \<lparr>script = ''a'', environmentVariables = None\<rparr>),
          (ClientCredentials, \<lparr>script = ''c'', environmentVariables = None\<rparr>)]
         [(AccessToken, [(production, Some ''a'')]), (ClientCredentials, [(production, Some ''c'')])]
         AccessToken \<noteq> Inr DeleteWorker"
  using undeploy_tears_down_iff_last
          [of "[(AccessToken, \<lparr>script = ''a'', environmentVariables = None\<rparr>)]" AccessToken
              "[(AccessToken, [(production, Some ''a'')])]"]
        undeploy_tears_down_iff_last
          [of "[(AccessToken, \<lparr>script = ''a'', environmentVariables = None\<rparr>),
                (ClientCredentials, \<lparr>script = ''c'', environmentVariables = None\<rparr>)]" AccessToken
              "[(AccessToken, [(production, Some ''a'')]), (ClientCredentials, [(production, Some ''c'')])]"]
  by (simp add: undeployJwtCustomizerScript_def)

text \<open>
  C1, as the code has it. The claim says that the removed key is absent from the merged
  document. It is not: \<^verbatim>\<open>deepmerge\<close> never deletes a property, and the patch
  \<^verbatim>\<open>{ [key]: { production: undefined, test: undefined } }\<close> sets both slots of the key to
  \<^verbatim>\<open>undefined\<close>. With two customizers configured, removing the access-token customizer
  puts a document that still has the access-token key, with both slots empty.
\<close>

theorem undeploy_removed_key_absent_counterexample:
  "undeployJwtCustomizerScript True
     [(AccessToken, \<lparr>script = ''a'', environmentVariables = None\<rparr>),
      (ClientCredentials, \<lparr>script = ''c'', environmentVariables = None\<rparr>)]
     [(AccessToken, [(production, Some ''a'')]), (ClientCredentials, [(production, Some ''c'')])]
     AccessToken
   = Inr (PutWorker [(AccessToken, [(production, None), (test, None)]),
                     (ClientCredentials, [(production, Some ''c'')])])
   \<and> map_of [(AccessToken, [(production, None), (test, None)]),
              (ClientCredentials, [(production, Some ''c'')])] AccessToken
       = Some [(production, None), (test, None)]"
  by (simp add: undeployJwtCustomizerScript_def deepmerge_def deepmerge_scripts_def mergeObject_def)

text \<open>
  C1, amended. For every well-formed document and every configured key with another
  customizer configured, \<^verbatim>\<open>undeployJwtCustomizerScript\<close> in the cloud puts a merged
  document that keeps an entry for the removed key in which every use-case slot is
  present with the value \<^verbatim>\<open>undefined\<close>, and the entry of every other key is the same
  object as before.
\<close>

theorem undeploy_empties_slots_and_keeps_key:
  assumes "wellFormedDocument customizerScriptsFromDatabase"
      and "map_of jwtCustomizers k \<noteq> None" and "length jwtCustomizers \<noteq> 1"
  shows "\<exists>merged.
           undeployJwtCustomizerScript True jwtCustomizers customizerScriptsFromDatabase k = Inr (PutWorker merged)
         \<and> (\<forall>u. slot merged k u = Some None)
         \<and> (\<forall>k'. k' \<noteq> k \<longrightarrow> map_of merged k' = map_of customizerScriptsFromDatabase k')"
proof -
  have u: "u = production \<or> u = test" for u by (cases u) auto
  show ?thesis
    using assms(2,3) u
    by (auto simp: undeployJwtCustomizerScript_def slot_def map_of_deepmerge_single[OF assms(1)] update_conv'
           split: option.splits)
qed

theorem undeploy_empties_slots_and_keeps_key_witness:
  "wellFormedDocument [(AccessToken, [(production, Some ''a''), (test, Some ''t'')]),
                       (ClientCredentials, [(production, Some ''c'')])]
   \<and> map_of [(AccessToken, \<lparr>script = ''a'', environmentVariables = None\<rparr>),
              (ClientCredentials, \<lparr>script = ''c'', environmentVariables = None\<rparr>)] AccessToken \<noteq> None
   \<and> length [(AccessToken, \<lparr>script = ''a'', environmentVariables = None\<rparr>),
              (ClientCredentials, \<lparr>script = ''c'', environmentVariables = None\<rparr>)] \<noteq> 1
   \<and> undeployJwtCustomizerScript True
         [(AccessToken, \<lparr>script = ''a'', environmentVariables = None\<rparr>),
          (ClientCredentials, \<lparr>script = ''c'', environmentVariables = None\<rparr>)]
         [(AccessToken, [(production, Some ''a''), (test, Some ''t'')]),
          (ClientCredentials, [(production, Some ''c'')])]
         AccessToken
       = Inr (PutWorker [(AccessToken, [(production, None), (test, None)]),
                         (ClientCredentials, [(production, Some ''c'')])])
   \<and> slot [(AccessToken, [(production, None), (test, None)]),
            (ClientCredentials, [(production, Some ''c'')])] AccessToken production = Some None
   \<and> slot [(AccessToken, [(production, None), (test, None)]),
            (ClientCredentials, [(production, Some ''c'')])] AccessToken test = Some None
   \<and> ClientCredentials \<noteq> AccessToken
   \<and> map_of [(AccessToken, [(production, None), (test, None)]),
              (ClientCredentials, [(production, Some ''c'')])] ClientCredentials
       = map_of [(AccessToken, [(production, Some ''a''), (test, Some ''t'')]),
                 (ClientCredentials, [(production, Some ''c'')])] ClientCredentials"
  using undeploy_empties_slots_and_keeps_key
          [of "[(AccessToken, [(production, Some ''a''), (test, Some ''t'')]),
                (ClientCredentials, [(production, Some ''c'')])]"
              "[(AccessToken, \<lparr>script = ''a'', environmentVariables = None\<rparr>),
                (ClientCredentials, \<lparr>script = ''c'', environmentVariables = None\<rparr>)]" AccessToken]
  by (simp add: wellFormedDocument_def undeployJwtCustomizerScript_def deepmerge_def deepmerge_scripts_def
        mergeObject_def slot_def)

section \<open>Properties of \<^verbatim>\<open>runScriptInLocalVm\<close>\<close>

subsection \<open>The payload\<close>

text \<open>
  C8. Whenever the script body has left a function under the name of the entry point,
  \<^verbatim>\<open>runScriptInLocalVm\<close> calls it with \<^term>\<open>payload data\<close> and with nothing else: its result
  is the outcome of that call, validated. For every \<^verbatim>\<open>data\<close> whose token type is not the
  access-token type that payload is the object with the two properties \<^verbatim>\<open>token\<close> and
  \<^verbatim>\<open>environmentVariables\<close>: it has no \<^verbatim>\<open>context\<close> property at all, whatever \<^verbatim>\<open>data\<close>
  carries there. For the access-token type it is the object with the three properties
  \<^verbatim>\<open>token\<close>, \<^verbatim>\<open>context\<close> and \<^verbatim>\<open>environmentVariables\<close>. Each property has the value that
  \<^verbatim>\<open>data\<close> has for it.
\<close>

theorem payload_context_only_for_access_token:
  assumes "runInNewContext_script rt (script data) = Some (Normal f)" and "typeof_function f"
  shows "runScriptInLocalVm rt data =
           (case invoke rt f (payload data) of
              None \<Rightarrow> None
            | Some (Throw e) \<Rightarrow> Some (Inl (catchBlock (Other e)))
            | Some (Normal result) \<Rightarrow>
                (case parse_record result of
                   Inl issues \<Rightarrow> Some (Inl (catchBlock (ZodError issues)))
                 | Inr parsedResult \<Rightarrow> Some (Inr parsedResult)))
       \<and> (tokenType data \<noteq> AccessToken \<longrightarrow>
            payload data = [(''token'', read (token data)),
                            (''environmentVariables'', read (environmentVariables data))])
       \<and> (tokenType data = AccessToken \<longrightarrow>
            payload data = [(''token'', read (token data)),
                            (''context'', read (context data)),
                            (''environmentVariables'', read (environmentVariables data))])"
  using assms
  by (simp add: runScriptInLocalVm_def tryBlock_def payload_def pick_def property_def
        split: option.splits Completion.splits sum.splits)

theorem payload_context_only_for_access_token_witness:
  "runInNewContext_script echoRuntime (script (exampleData ''const getCustomJwtClaims = (payload) => payload'' ClientCredentials))
      = Some (Normal (JFunction 0))
   \<and> typeof_function (JFunction 0)
   \<and> tokenType (exampleData ''const getCustomJwtClaims = (payload) => payload'' ClientCredentials) \<noteq> AccessToken
   \<and> context (exampleData ''const getCustomJwtClaims = (payload) => payload'' ClientCredentials)
       = Some (JObject [(''user'', JObject [])])
   \<and> runScriptInLocalVm echoRuntime (exampleData ''const getCustomJwtClaims = (payload) => payload'' ClientCredentials)
       = Some (Inr [(''token'', JObject [(''sub'', JString ''u1'')]),
                    (''environmentVariables'', JObject [(''API_KEY'', JString ''k'')])])
   \<and> runInNewContext_script echoRuntime (script (exampleData ''const getCustomJwtClaims = (payload) => payload'' AccessToken))
      = Some (Normal (JFunction 0))
   \<and> tokenType (exampleData ''const getCustomJwtClaims = (payload) => payload'' AccessToken) = AccessToken
   \<and> runScriptInLocalVm echoRuntime (exampleData ''const getCustomJwtClaims = (payload) => payload'' AccessToken)
       = Some (Inr [(''token'', JObject [(''sub'', JString ''u1'')]),
                    (''context'', JObject [(''user'', JObject [])]),
                    (''environmentVariables'', JObject [(''API_KEY'', JString ''k'')])])"
  using payload_context_only_for_access_token
          [of echoRuntime "exampleData ''const getCustomJwtClaims = (payload) => payload'' ClientCredentials"
              "JFunction 0"]
        payload_context_only_for_access_token
          [of echoRuntime "exampleData ''const getCustomJwtClaims = (payload) => payload'' AccessToken"
              "JFunction 0"]
  by (simp add: echoRuntime_def exampleData_def scopeWithEntryPoint_def runInNewContext_script_def)

subsection \<open>The shape of the result\<close>

lemma parse_record_rejects:
  "getParsedType v \<noteq> zod_object \<Longrightarrow> parse_record v = Inl [invalid_type zod_object (getParsedType v)]"
  by (cases v) simp_all

lemma parse_record_Inl:
  "parse_record v = Inl issues \<Longrightarrow> getParsedType v \<noteq> zod_object"
  by (cases v) simp_all

lemma status_of_other:
  "catchBlock (Other e) = Yields r \<Longrightarrow> status r = 422 \<or> status r = 500"
  by (cases "buildErrorResponse e") (auto split: if_splits)

lemma status_400_only_from_parse:
  assumes "tryBlock rt data = Some (Caught c)" "catchBlock c = Yields r" "status r = 400"
  shows "\<exists>g res. runInNewContext_script rt (script data) = Some (Normal g) \<and> typeof_function g
            \<and> invoke rt g (payload data) = Some (Normal res) \<and> getParsedType res \<noteq> zod_object"
proof -
  obtain issues where c: "c = ZodError issues"
    using assms(2,3) status_of_other by (cases c) fastforce+
  show ?thesis
    using assms(1) unfolding c tryBlock_def
    by (auto split: option.splits Completion.splits if_splits sum.splits dest: parse_record_Inl)
qed

text \<open>
  C2. Whenever the script body has left a function under the name of the entry point
  and the call of that function settles with a value that is not an object (a string, an
  array, \<^verbatim>\<open>null\<close>, ...), \<^verbatim>\<open>runScriptInLocalVm\<close> fails, and it fails with the response of
  the validation branch: status 400, message \<^verbatim>\<open>Invalid input\<close> and the zod issue naming
  the type received. The class is distinct: a failure of \<^verbatim>\<open>runScriptInLocalVm\<close> has status
  400 only when the entry point returned such a value.
\<close>

theorem non_record_result_fails_with_its_own_class:
  "(runInNewContext_script rt (script data) = Some (Normal f) \<and> typeof_function f
      \<and> invoke rt f (payload data) = Some (Normal result) \<and> getParsedType result \<noteq> zod_object
    \<longrightarrow> runScriptInLocalVm rt data =
          Some (Inl (Yields \<lparr>status = 400,
                     body = \<lparr>message = Some (JString ''Invalid input''),
                             errors = Some [invalid_type zod_object (getParsedType result)],
                             stack = None\<rparr>\<rparr>)))
 \<and> (runScriptInLocalVm rt data = Some (Inl (Yields r)) \<and> status r = 400
    \<longrightarrow> (\<exists>g res. runInNewContext_script rt (script data) = Some (Normal g) \<and> typeof_function g
            \<and> invoke rt g (payload data) = Some (Normal res) \<and> getParsedType res \<noteq> zod_object))"
proof (intro conjI impI)
  assume "runInNewContext_script rt (script data) = Some (Normal f) \<and> typeof_function f
      \<and> invoke rt f (payload data) = Some (Normal result) \<and> getParsedType result \<noteq> zod_object"
  then show "runScriptInLocalVm rt data =
          Some (Inl (Yields \<lparr>status = 400,
                     body = \<lparr>message = Some (JString ''Invalid input''),
                             errors = Some [invalid_type zod_object (getParsedType result)],
                             stack = None\<rparr>\<rparr>))"
    by (simp add: runScriptInLocalVm_def tryBlock_def parse_record_rejects)
next
  assume a: "runScriptInLocalVm rt data = Some (Inl (Yields r)) \<and> status r = 400"
  then obtain c where "tryBlock rt data = Some (Caught c)" "catchBlock c = Yields r"
    by (auto simp: runScriptInLocalVm_def split: option.splits TryResult.splits)
  with a show "\<exists>g res. runInNewContext_script rt (script data) = Some (Normal g) \<and> typeof_function g
            \<and> invoke rt g (payload data) = Some (Normal res) \<and> getParsedType res \<noteq> zod_object"
    using status_400_only_from_parse by blast
qed

theorem non_record_result_fails_with_its_own_class_witness:
  "runInNewContext_script (exampleRuntime scopeWithEntryPoint (Some (Normal (JString ''claims''))))
      (script (exampleData ''const getCustomJwtClaims = async () => `claims`'' AccessToken))
      = Some (Normal (JFunction 0))
   \<and> typeof_function (JFunction 0)
   \<and> invoke (exampleRuntime scopeWithEntryPoint (Some (Normal (JString ''claims'')))) (JFunction 0)
       (payload (exampleData ''const getCustomJwtClaims = async () => `claims`'' AccessToken))
      = Some (Normal (JString ''claims''))
   \<and> getParsedType (JString ''claims'') \<noteq> zod_object
   \<and> runScriptInLocalVm (exampleRuntime scopeWithEntryPoint (Some (Normal (JString ''claims''))))
        (exampleData ''const getCustomJwtClaims = async () => `claims`'' AccessToken)
      = Some (Inl (Yields \<lparr>status = 400,
                   body = \<lparr>message = Some (JString ''Invalid input''),
                           errors = Some [invalid_type zod_object zod_string],
                           stack = None\<rparr>\<rparr>))
   \<and> status \<lparr>status = 400,
               body = \<lparr>message = Some (JString ''Invalid input''),
                       errors = Some [invalid_type zod_object zod_string],
                       stack = None\<rparr>\<rparr> = 400"
  using non_record_result_fails_with_its_own_class
          [of "exampleRuntime scopeWithEntryPoint (Some (Normal (JString ''claims'')))"
              "exampleData ''const getCustomJwtClaims = async () => `claims`'' AccessToken"
              "JFunction 0" "JString ''claims''"
              "\<lparr>status = 400,
                body = \<lparr>message = Some (JString ''Invalid input''),
                        errors = Some [invalid_type zod_object zod_string],
                        stack = None\<rparr>\<rparr>"]
  by (simp add: exampleRuntime_def exampleData_def scopeWithEntryPoint_def runInNewContext_script_def)

subsection \<open>Status and body of a failure\<close>

lemma thrown_is_caught:
  "scriptThrows rt data e \<Longrightarrow> tryBlock rt data = Some (Caught (Other e))"
  by (auto simp: scriptThrows_def tryBlock_def runInNewContext_script_def
        split: option.splits Completion.splits Evaluation.splits)

lemma thrown_is_answered:
  "scriptThrows rt data e \<Longrightarrow> runScriptInLocalVm rt data = Some (Inl (catchBlock (Other e)))"
  by (simp add: runScriptInLocalVm_def thrown_is_caught)


text \<open>
  Every failing execution is of one of four kinds: the script body or the entry point
  throws; the entry point settles with a value that is not an object; nothing binds the
  name of the entry point; the value of the program is not a function.
\<close>

lemma failing_execution_cases:
  assumes "runScriptInLocalVm rt data = Some (Inl a)"
  shows "(\<exists>e. scriptThrows rt data e)
       \<or> (\<exists>result. entryPointReturns rt data result \<and> getParsedType result \<noteq> zod_object)
       \<or> (\<exists>scope. evaluate rt (script data) = Some (Normal (Resolves scope))
                  \<and> scope ''getCustomJwtClaims'' = None)
       \<or> (\<exists>v. runInNewContext_script rt (script data) = Some (Normal v) \<and> \<not> typeof_function v)"
proof (cases "runInNewContext_script rt (script data)")
  case None
  with assms show ?thesis by (simp add: runScriptInLocalVm_def tryBlock_def)
next
  case (Some c)
  show ?thesis
  proof (cases c)
    case (Throw e)
    with Some have "evaluate rt (script data) = Some (Throw e)
        \<or> (\<exists>scope. evaluate rt (script data) = Some (Normal (Resolves scope))
                  \<and> scope ''getCustomJwtClaims'' = None)"
      by (auto simp: runInNewContext_script_def split: option.splits Completion.splits Evaluation.splits)
    then show ?thesis by (auto simp: scriptThrows_def)
  next
    case (Normal v)
    show ?thesis
    proof (cases "typeof_function v")
      case False
      with Some Normal show ?thesis by blast
    next
      case True
      with Some Normal assms show ?thesis
        by (auto simp: runScriptInLocalVm_def tryBlock_def scriptThrows_def entryPointReturns_def
              split: option.splits Completion.splits sum.splits dest: parse_record_Inl)
    qed
  qed
qed







subsection \<open>The deadline\<close>

text \<open>
  The first call of \<^verbatim>\<open>runInNewContext\<close> (lines 187-190) passes no timeout: when the script
  body never completes, \<^verbatim>\<open>runScriptInLocalVm\<close> never returns. The same holds for a call of
  the entry point that never settles.
\<close>

lemma script_body_has_no_deadline:
  "evaluate rt (script data) = None \<Longrightarrow> runScriptInLocalVm rt data = None"
  by (simp add: runScriptInLocalVm_def tryBlock_def runInNewContext_script_def)

lemma unsettled_call_has_no_deadline:
  assumes "runInNewContext_script rt (script data) = Some (Normal f)" "typeof_function f"
      and "invoke rt f (payload data) = None"
  shows "runScriptInLocalVm rt data = None"
  using assms by (simp add: runScriptInLocalVm_def tryBlock_def)

text \<open>
  When the timeout of the second call (line 212) expires, \<^verbatim>\<open>node:vm\<close> throws an \<^verbatim>\<open>Error\<close>
  with the message \<^verbatim>\<open>Script execution timed out after 3000ms\<close>; the \<^verbatim>\<open>catch\<close> block answers
  it as it answers any runtime error, and no claims are returned.
\<close>

lemma timeout_is_answered_as_a_runtime_error:
  assumes "scriptThrows rt data (createdError rt Host Error ''Script execution timed out after 3000ms'')"
  shows "runScriptInLocalVm rt data =
           Some (Inl (Yields \<lparr>status = 500,
                              body = \<lparr>message = Some (JString ''Script execution timed out after 3000ms''),
                                      errors = None,
                                      stack = map_option JString
                                                (stackOf rt ''Script execution timed out after 3000ms'')\<rparr>\<rparr>))"
  using thrown_is_answered[OF assms] by (simp add: createdError_def)

text \<open>
  C4. The claim bounds the evaluation of the script body and the invocation of the
  entry point by one deadline, and gives the failure its own classification. A script
  that loops in its body, \<^verbatim>\<open>while (true) {}\<close>, is evaluated without a timeout:
  \<^verbatim>\<open>runScriptInLocalVm\<close> never returns, and no failure is produced. A script that loops
  in its entry point meets the timeout, and is answered with status 500 like any
  runtime error.
\<close>

theorem looping_script_body_never_times_out:
  "runScriptInLocalVm loopingRuntime (exampleData ''while (true) {}'' AccessToken) = None
   \<and> runScriptInLocalVm
       (exampleRuntime scopeWithEntryPoint
          (Some (Throw (NativeError Host Error
                          (Yields (Some (JString ''Script execution timed out after 3000ms'')))
                          (Yields (Some (JString ''at runScriptInLocalVm'')))))))
       (exampleData ''const getCustomJwtClaims = () => { while (true) {} }'' AccessToken)
     = Some (Inl (Yields \<lparr>status = 500,
                          body = \<lparr>message = Some (JString ''Script execution timed out after 3000ms''),
                                  errors = None, stack = Some (JString ''at runScriptInLocalVm'')\<rparr>\<rparr>))"
  by (simp add: loopingRuntime_def exampleRuntime_def exampleData_def scopeWithEntryPoint_def
        runScriptInLocalVm_def tryBlock_def runInNewContext_script_def)

subsection \<open>The entry point\<close>

text \<open>
  When the name of the entry point is bound to a value that is not a function, line 193
  throws the \<^verbatim>\<open>TypeError\<close> of the host that names the missing function, and the answer
  has status 422.
\<close>

lemma non_callable_entry_point:
  assumes "evaluate rt (script data) = Some (Normal (Resolves scope))"
      and "scope ''getCustomJwtClaims'' = Some v" and "\<not> typeof_function v"
  shows "runScriptInLocalVm rt data =
           Some (Inl (Yields \<lparr>status = 422,
                      body = \<lparr>message = Some (JString ''The script does not have a function named `getCustomJwtClaims`''),
                              errors = None,
                              stack = map_option JString
                                        (stackOf rt ''The script does not have a function named `getCustomJwtClaims`'')\<rparr>\<rparr>))"
  using assms
  by (simp add: runScriptInLocalVm_def tryBlock_def runInNewContext_script_def createdError_def)

text \<open>
  When nothing binds the name, the appended expression throws inside the new context
  before line 192 is reached, and the answer is the one of any runtime error.
\<close>

lemma unbound_entry_point:
  assumes "evaluate rt (script data) = Some (Normal (Resolves scope))"
      and "scope ''getCustomJwtClaims'' = None"
  shows "runScriptInLocalVm rt data =
           Some (Inl (Yields \<lparr>status = 500,
                      body = \<lparr>message = Some (JString ''getCustomJwtClaims is not defined''), errors = None,
                              stack = map_option JString (stackOf rt ''getCustomJwtClaims is not defined'')\<rparr>\<rparr>))"
  using assms
  by (simp add: runScriptInLocalVm_def tryBlock_def runInNewContext_script_def createdError_def)

text \<open>
  C9. The claim gives one classification to a script that does not define the entry
  point and to a script that binds its name to something that is not callable. The code
  answers the second with the \<^verbatim>\<open>TypeError\<close> of line 193 and status 422, and the first, a
  script that defines only \<^verbatim>\<open>answer\<close>, with a \<^verbatim>\<open>ReferenceError\<close> and status 500.
\<close>

theorem script_without_entry_point_is_a_reference_error:
  "runScriptInLocalVm (exampleRuntime scopeWithoutEntryPoint None) (exampleData ''const answer = 42'' AccessToken)
     = Some (Inl (Yields \<lparr>status = 500,
                  body = \<lparr>message = Some (JString ''getCustomJwtClaims is not defined''), errors = None,
                          stack = Some (JString ''at runScriptInLocalVm'')\<rparr>\<rparr>))
   \<and> runScriptInLocalVm (exampleRuntime scopeWithNumberEntryPoint None)
       (exampleData ''const getCustomJwtClaims = 42'' AccessToken)
     = Some (Inl (Yields \<lparr>status = 422,
                  body = \<lparr>message = Some (JString ''The script does not have a function named `getCustomJwtClaims`''),
                          errors = None, stack = Some (JString ''at runScriptInLocalVm'')\<rparr>\<rparr>))"
  by (simp add: exampleRuntime_def exampleData_def scopeWithoutEntryPoint_def scopeWithNumberEntryPoint_def
        runScriptInLocalVm_def tryBlock_def runInNewContext_script_def createdError_def)

end
